theory Spec2Isabelle
  imports Complex_Main
begin

section \<open>JavaScript string primitives used by the front end\<close>

text \<open>
  Strings are \<^typ>\<open>string\<close> (lists of \<^typ>\<open>char\<close>), read as ASCII text: \<open>toLowerCase\<close>
  folds the letters \<open>A\<close> to \<open>Z\<close> and leaves every other character alone, and the white
  space that \<open>trim\<close> strips is tab, line feed, vertical tab, form feed, carriage return
  and space.
\<close>

definition lowerChar :: "char \<Rightarrow> char" where
  "lowerChar c =
     (case map_of (zip ''ABCDEFGHIJKLMNOPQRSTUVWXYZ'' ''abcdefghijklmnopqrstuvwxyz'') c of
        Some d \<Rightarrow> d
      | None \<Rightarrow> c)"

definition toLowerCase :: "string \<Rightarrow> string" where
  "toLowerCase s = map lowerChar s"

definition isWhiteSpace :: "char \<Rightarrow> bool" where
  "isWhiteSpace c =
     (c \<in> set [CHR 0x09, CHR 0x0A, CHR 0x0B, CHR 0x0C, CHR 0x0D, CHR '' ''])"

definition trim :: "string \<Rightarrow> string" where
  "trim s = rev (dropWhile isWhiteSpace (rev (dropWhile isWhiteSpace s)))"

definition isDigit :: "char \<Rightarrow> bool" where
  "isDigit c = (c \<in> set ''0123456789'')"

text \<open>The regular expression test \<^verbatim>\<open>/^\d+$/.test(value)\<close>: one or more digits, nothing else.\<close>

definition digitsOnly :: "string \<Rightarrow> bool" where
  "digitsOnly s = (s \<noteq> [] \<and> list_all isDigit s)"

text \<open>\<^verbatim>\<open>s.includes(q)\<close>, here \<open>includes_str\<close>: \<open>q\<close> occurs in \<open>s\<close> as a contiguous substring.\<close>

fun includes_str :: "string \<Rightarrow> string \<Rightarrow> bool" where
  "includes_str [] q = (q = [])"
| "includes_str (c # cs) q = (take (length q) (c # cs) = q \<or> includes_str cs q)"

section \<open>The filter bar component\<close>

text \<open>
  \<^verbatim>\<open>interface FilterState\<close>: every field is optional. The fields \<^verbatim>\<open>from\<close> and
  \<^verbatim>\<open>to\<close> are called \<open>from_date\<close> and \<open>to_date\<close> here.
\<close>

record FilterState =
  from_date :: "string option"
  to_date :: "string option"
  ssic :: "string option"
  ssicCategory :: "string option"
  area :: "string option"

text \<open>
  \<^verbatim>\<open>SsicCategory\<close>, as the component uses it: \<^verbatim>\<open>id\<close> (here \<open>id_cat\<close>),
  \<^verbatim>\<open>label\<close>, \<^verbatim>\<open>keywords\<close> (here \<open>keywords_cat\<close>, read as \<^verbatim>\<open>c.keywords || []\<close>) and \<^verbatim>\<open>sector\<close>
  (read as \<^verbatim>\<open>c.sector || 'other'\<close>). The list entries of the component carry a
  \<^verbatim>\<open>display\<close> string as well.
\<close>

record SsicCategory =
  id_cat :: string
  label :: string
  keywords_cat :: "string list option"
  sector :: "string option"

record DisplayCategory = SsicCategory +
  display :: string

record CategoryGroup =
  sector_g :: string
  label_g :: string
  items_g :: "DisplayCategory list"

text \<open>
  The component's fields. \<open>stateChange\<close> is the log of the values the
  \<^verbatim>\<open>EventEmitter\<close> has emitted, oldest first.
\<close>

record FilterBarComponent =
  state :: FilterState
  stateChange :: "FilterState list"
  categories :: "SsicCategory list"
  filteredCategories :: "DisplayCategory list"
  categoryInput :: string
  sectorLabel :: "string \<rightharpoonup> string"
  groupedCategories :: "CategoryGroup list"
  showCategoryList :: bool

definition formatDisplay :: "'a SsicCategory_scheme \<Rightarrow> string" where
  "formatDisplay category = label category"

definition keywords_of :: "'a SsicCategory_scheme \<Rightarrow> string list" where
  "keywords_of c = (case keywords_cat c of None \<Rightarrow> [] | Some ks \<Rightarrow> ks)"

definition sector_key :: "'a SsicCategory_scheme \<Rightarrow> string" where
  "sector_key c =
     (case sector c of None \<Rightarrow> ''other'' | Some s \<Rightarrow> if s = [] then ''other'' else s)"

text \<open>
  The dropdown filter of \<^verbatim>\<open>updateGroupedCategories\<close>: a category stays in the list when
  its label or one of its keywords contains the query as a substring.
\<close>

definition matchesFilter :: "string \<Rightarrow> 'a SsicCategory_scheme \<Rightarrow> bool" where
  "matchesFilter query c =
     (let labelMatch = includes_str (toLowerCase (label c)) query;
          keywordMatch = list_ex (\<lambda>k. includes_str (toLowerCase k) query) (keywords_of c)
      in labelMatch \<or> keywordMatch)"

text \<open>
  \<^verbatim>\<open>grouped\<close> is a plain object used as a dictionary from sector key to the list of its
  categories, kept here as an association list in insertion order.
  Sector keys are taken not to be names of \<^verbatim>\<open>Object.prototype\<close> members.
\<close>

fun push_grouped :: "(string \<times> 'a list) list \<Rightarrow> string \<Rightarrow> 'a \<Rightarrow> (string \<times> 'a list) list" where
  "push_grouped [] key c = [(key, [c])]"
| "push_grouped ((k, cs) # g) key c =
     (if k = key then (k, cs @ [c]) # g else (k, cs) # push_grouped g key c)"

text \<open>
  \<^verbatim>\<open>Object.keys\<close> lists array-index keys first, in ascending numeric order, and the
  other keys after them in insertion order.
\<close>

definition digitValue :: "char \<Rightarrow> nat" where
  "digitValue c = (case map_of (zip ''0123456789'' [0 ..< 10]) c of Some d \<Rightarrow> d | None \<Rightarrow> 0)"

definition indexValue :: "string \<Rightarrow> nat" where
  "indexValue k = foldl (\<lambda>n c. 10 * n + digitValue c) 0 k"

definition isArrayIndex :: "string \<Rightarrow> bool" where
  "isArrayIndex k =
     (k = ''0'' \<or> (digitsOnly k \<and> hd k \<noteq> CHR ''0'' \<and> indexValue k < 2 ^ 32 - 1))"

definition Object_entries :: "(string \<times> 'a) list \<Rightarrow> (string \<times> 'a) list" where
  "Object_entries obj =
     sort_key (\<lambda>e. indexValue (fst e)) (filter (\<lambda>e. isArrayIndex (fst e)) obj)
     @ filter (\<lambda>e. \<not> isArrayIndex (fst e)) obj"

definition updateGroupedCategories :: "string \<Rightarrow> FilterBarComponent \<Rightarrow> FilterBarComponent" where
  "updateGroupedCategories flt c =
     (let query = toLowerCase (trim flt);
          its = (if query \<noteq> [] then filter (matchesFilter query) (filteredCategories c)
                 else filteredCategories c);
          grouped = foldl (\<lambda>g x. push_grouped g (sector_key x) x) [] its
      in c\<lparr>groupedCategories :=
             map (\<lambda>(key, xs).
                    \<lparr>sector_g = key,
                     label_g = (case sectorLabel c key of
                                  None \<Rightarrow> key
                                | Some l \<Rightarrow> if l = [] then key else l),
                     items_g = xs\<rparr>)
                 (Object_entries grouped)\<rparr>)"

definition onChange :: "FilterBarComponent \<Rightarrow> FilterBarComponent" where
  "onChange c = c\<lparr>stateChange := stateChange c @ [state c]\<rparr>"

definition selectCategory :: "DisplayCategory \<Rightarrow> FilterBarComponent \<Rightarrow> FilterBarComponent" where
  "selectCategory category c =
     onChange (c\<lparr>categoryInput := label category,
                 state := (state c)\<lparr>ssicCategory := Some (id_cat category), ssic := None\<rparr>,
                 showCategoryList := False\<rparr>)"

definition showList :: "FilterBarComponent \<Rightarrow> FilterBarComponent" where
  "showList c = c\<lparr>showCategoryList := True\<rparr>"

text \<open>
  The predicates of the two \<^verbatim>\<open>find\<close> calls of \<^verbatim>\<open>onCategoryInput\<close>
  (\<open>lower\<close> is the trimmed, lower-cased input), the two calls, and their combination
  \<^verbatim>\<open>direct || keyword\<close>.
\<close>

definition labelMatch :: "string \<Rightarrow> 'a SsicCategory_scheme \<Rightarrow> bool" where
  "labelMatch lower c = (toLowerCase (label c) = lower)"

definition keywordMatch :: "string \<Rightarrow> 'a SsicCategory_scheme \<Rightarrow> bool" where
  "keywordMatch lower c = list_ex (\<lambda>k. toLowerCase k = lower) (keywords_of c)"

definition findDirect :: "string \<Rightarrow> DisplayCategory list \<Rightarrow> DisplayCategory option" where
  "findDirect lower cs = find (labelMatch lower) cs"

definition findKeyword :: "string \<Rightarrow> DisplayCategory list \<Rightarrow> DisplayCategory option" where
  "findKeyword lower cs = find (keywordMatch lower) cs"

definition findMatch :: "string \<Rightarrow> DisplayCategory list \<Rightarrow> DisplayCategory option" where
  "findMatch lower cs =
     (case findDirect lower cs of Some d \<Rightarrow> Some d | None \<Rightarrow> findKeyword lower cs)"

definition onCategoryInput :: "FilterBarComponent \<Rightarrow> FilterBarComponent" where
  "onCategoryInput c =
     (let val = trim (categoryInput c);
          c1 = (updateGroupedCategories val c)\<lparr>showCategoryList := True\<rparr>
      in if val = [] then
           onChange (c1\<lparr>state := (state c1)\<lparr>ssicCategory := None, ssic := None\<rparr>\<rparr>)
         else
           (let lower = toLowerCase val
            in case findMatch lower (filteredCategories c1) of
                 Some m \<Rightarrow>
                   onChange (c1\<lparr>state := (state c1)\<lparr>ssicCategory := Some (id_cat m), ssic := None\<rparr>\<rparr>)
               | None \<Rightarrow>
                   if digitsOnly val then
                     onChange (c1\<lparr>state := (state c1)\<lparr>ssic := Some val, ssicCategory := None\<rparr>\<rparr>)
                   else
                     onChange (c1\<lparr>state := (state c1)\<lparr>ssic := None, ssicCategory := None\<rparr>\<rparr>)))"

text \<open>
  The callback of \<^verbatim>\<open>ngOnInit\<close>, run when the category lookup arrives.
  \<open>categories_r\<close> and \<open>sectors_r\<close> are the response's optional
  \<^verbatim>\<open>categories\<close> and \<^verbatim>\<open>sectors\<close>.
\<close>

record SsicSector =
  id_sec :: string
  label_sec :: string

record SsicCategoriesResponse =
  categories_r :: "SsicCategory list option"
  sectors_r :: "SsicSector list option"

definition ngOnInit_next :: "SsicCategoriesResponse \<Rightarrow> FilterBarComponent \<Rightarrow> FilterBarComponent" where
  "ngOnInit_next data c =
     (let cats = (case categories_r data of None \<Rightarrow> [] | Some cs \<Rightarrow> cs);
          sectors = (case sectors_r data of None \<Rightarrow> [] | Some ss \<Rightarrow> ss);
          c1 = c\<lparr>categories := cats,
                 sectorLabel := foldl (\<lambda>acc s. acc(id_sec s \<mapsto> label_sec s)) Map.empty sectors,
                 filteredCategories :=
                   map (\<lambda>x. \<lparr>id_cat = id_cat x, label = label x, keywords_cat = keywords_cat x,
                              sector = sector x, display = formatDisplay x\<rparr>) cats\<rparr>
      in updateGroupedCategories [] c1)"

section \<open>The API service: the two chat operations\<close>

datatype json =
    JNull
  | JBool bool
  | JNumber real
  | JString string
  | JArray "json list"
  | JObject "(string \<times> json) list"

datatype http_method = GET | POST

record http_request =
  verb :: http_method
  url :: string
  body :: json

text \<open>
  The two response interfaces as they are declared: the fields an interface lists
  itself, the interface it extends, and the fields it has in all.
\<close>

datatype ts_type = TString | TUnknown | TRecord ts_type | TArray ts_type

datatype interface = ChatSqlResponse | ChatResponse

fun extends_of :: "interface \<Rightarrow> interface option" where
  "extends_of ChatSqlResponse = None"
| "extends_of ChatResponse = Some ChatSqlResponse"

fun own_members :: "interface \<Rightarrow> (string \<times> ts_type) list" where
  "own_members ChatSqlResponse =
     [(''intent'', TString), (''slots'', TRecord TUnknown), (''sql'', TString)]"
| "own_members ChatResponse =
     [(''data'', TArray (TRecord TUnknown)), (''narrative'', TString)]"

definition members :: "interface \<Rightarrow> (string \<times> ts_type) list" where
  "members i =
     (case extends_of i of None \<Rightarrow> own_members i | Some b \<Rightarrow> own_members b @ own_members i)"

text \<open>An HTTP call of the service: the request it sends and the type its response is read at.\<close>

record api_call =
  request :: http_request
  response :: interface

definition baseUrl :: string where
  "baseUrl = ''http://localhost:8000''"

definition chatSql :: "string \<Rightarrow> api_call" where
  "chatSql question =
     \<lparr>request = \<lparr>verb = POST, url = baseUrl @ ''/api/chat/sql-only'',
                  body = JObject [(''question'', JString question)]\<rparr>,
      response = ChatSqlResponse\<rparr>"

definition chatQuery :: "string \<Rightarrow> api_call" where
  "chatQuery question =
     \<lparr>request = \<lparr>verb = POST, url = baseUrl @ ''/api/chat/query'',
                  body = JObject [(''question'', JString question)]\<rparr>,
      response = ChatResponse\<rparr>"

section \<open>The map page\<close>

text \<open>
  \<^verbatim>\<open>MapHotspot\<close>. A \<^verbatim>\<open>number\<close> that arrives in a JSON response is finite;
  \<open>count\<close> is a \<^typ>\<open>real\<close>, on which \<^verbatim>\<open>Math.max\<close> is exact.
\<close>

record MapHotspot =
  subzone_id :: "string option"
  name :: "string option"
  planning_area_id :: "string option"
  count :: real
  geometry :: string

text \<open>
  \<^verbatim>\<open>Math.max(...hotspots.map((h) => h.count), 1)\<close>: the largest of the counts and 1.
\<close>

definition maxCount :: "MapHotspot list \<Rightarrow> real" where
  "maxCount hotspots = foldr max (map count hotspots) 1"

text \<open>\<^verbatim>\<open>a || b\<close> on optional strings: the empty string is falsy too.\<close>

definition or_else :: "string option \<Rightarrow> string option \<Rightarrow> string option" where
  "or_else a b = (case a of None \<Rightarrow> b | Some s \<Rightarrow> if s = [] then b else Some s)"

record 'g Feature =
  name_p :: string
  count_p :: real
  planning_area_id_p :: string
  geometry_f :: 'g

datatype js_error = SyntaxError

text \<open>
  One element of \<^verbatim>\<open>features\<close>. \<open>parse\<close> stands for \<^verbatim>\<open>JSON.parse\<close>, which
  throws on text that is not JSON (\<open>None\<close>).
\<close>

definition toFeature :: "(string \<Rightarrow> 'g option) \<Rightarrow> MapHotspot \<Rightarrow> js_error + 'g Feature" where
  "toFeature parse h =
     (case parse (geometry h) of
        None \<Rightarrow> Inl SyntaxError
      | Some g \<Rightarrow>
          Inr \<lparr>name_p = (case or_else (or_else (name h) (subzone_id h)) (Some ''Unknown'') of
                           Some n \<Rightarrow> n | None \<Rightarrow> []),
               count_p = count h,
               planning_area_id_p = (case or_else (planning_area_id h) (Some []) of
                                       Some a \<Rightarrow> a | None \<Rightarrow> []),
               geometry_f = g\<rparr>)"

fun toFeatures :: "(string \<Rightarrow> 'g option) \<Rightarrow> MapHotspot list \<Rightarrow> js_error + 'g Feature list" where
  "toFeatures parse [] = Inr []"
| "toFeatures parse (h # hs) =
     (case toFeature parse h of
        Inl e \<Rightarrow> Inl e
      | Inr f \<Rightarrow> (case toFeatures parse hs of Inl e \<Rightarrow> Inl e | Inr fs \<Rightarrow> Inr (f # fs)))"

text \<open>
  The \<^verbatim>\<open>style\<close> callback computes \<^verbatim>\<open>intensity = count / maxCount\<close> for a
  feature and builds the fill colour from it. The division is one of binary64 numbers;
  it is kept here as its two operands, and neither the rounded quotient nor the colour
  string is modelled.
\<close>

record Division =
  dividend :: real
  divisor :: real

definition style :: "real \<Rightarrow> 'g Feature \<Rightarrow> Division" where
  "style maxc feature = \<lparr>dividend = count_p feature, divisor = maxc\<rparr>"

text \<open>
  The page: whether \<^verbatim>\<open>this.map\<close> exists, and the layer last built, a list of the
  features with their styles.
\<close>

record 'g MapPage =
  map_created :: bool
  geoLayer :: "('g Feature \<times> Division) list option"
  loading :: bool

definition renderGeo ::
  "(string \<Rightarrow> 'g option) \<Rightarrow> MapHotspot list \<Rightarrow> 'g MapPage \<Rightarrow> js_error + 'g MapPage" where
  "renderGeo parse hotspots page =
     (if \<not> map_created page then Inr page
      else
        (let maxc = maxCount hotspots
         in case toFeatures parse hotspots of
              Inl e \<Rightarrow> Inl e
            | Inr features \<Rightarrow>
                Inr (page\<lparr>geoLayer := Some (map (\<lambda>f. (f, style maxc f)) features)\<rparr>)))"

section \<open>The question-to-query core\<close>

text \<open>
  The back end that answers the two chat operations is not among the sources. The
  definitions of this section follow the specification's description of it.
\<close>

text \<open>Modelled from the spec: the closed enumeration of intents (data model, Intent).\<close>

datatype intent = trend | ranking | hotspot | comparison | entity_lookup | general

text \<open>
  Modelled from the spec: a geographic unit of the gazetteer, a planning area or a subzone
  with its identifier.
\<close>

datatype place = PlanningArea string | Subzone string

text \<open>
  Modelled from the spec: the industry a question names, an SSIC code (a digit string) or a
  category of the taxonomy.
\<close>

datatype industry = Code string | Category string

text \<open>Modelled from the spec: the recognized slot names (data model, Slot Set).\<close>

datatype slot_name =
    date_from | date_to | ssic_code | ssic_category | planning_area | subzone
  | compare_area_a | compare_area_b | limit_slot

text \<open>Modelled from the spec: the typed value of a slot.\<close>

datatype slot_value = Text string | Number int | Place place

text \<open>Modelled from the spec: the slot set, a mapping from slot name to typed value.\<close>

type_synonym slot_set = "slot_name \<rightharpoonup> slot_value"

text \<open>
  Modelled from the spec: what the slot extractors and the cue detection of the classifier
  find in one question. \<open>area_mentions\<close> are the gazetteer matches in the order they
  occur; \<open>comparison_cue\<close> says that "vs", "compared to" or "versus" connects area
  mentions; the other flags are the hotspot cue ("hotspot", "where", "map"), the
  distribution request ("which subzones", "hotspot"), the ranking cue ("top", "most",
  "highest"), the explicit count request, the trend cue ("trend", "over time", "growth",
  "monthly") and the lookup cue (a UEN or a quoted entity name).
\<close>

record extraction =
  date_range :: "(string \<times> string) option"
  industry_found :: "industry option"
  area_mentions :: "place list"
  comparison_cue :: bool
  hotspot_cue :: bool
  distribution_request :: bool
  ranking_cue :: bool
  count_request :: bool
  trend_cue :: bool
  lookup_cue :: bool

text \<open>
  Modelled from the spec: the area extractor on a comparison question. It needs exactly
  two area mentions, distinct and connected by a comparison cue; with fewer or more the
  comparison slots stay unset.
\<close>

definition comparison_areas :: "extraction \<Rightarrow> (place \<times> place) option" where
  "comparison_areas e =
     (case area_mentions e of
        [a, b] \<Rightarrow> if comparison_cue e \<and> a \<noteq> b then Some (a, b) else None
      | _ \<Rightarrow> None)"

text \<open>
  Modelled from the spec: the area slot of a question that is no comparison. A slot is
  present only for an unambiguous match, here a single mention.
\<close>

definition area_slot :: "extraction \<Rightarrow> place option" where
  "area_slot e =
     (if comparison_areas e \<noteq> None then None
      else case area_mentions e of [a] \<Rightarrow> Some a | _ \<Rightarrow> None)"

text \<open>
  Modelled from the spec: the slot set of a question. A slot is present only if its
  extractor found a value; no default is filled in here.
\<close>

definition date_slots :: "extraction \<Rightarrow> slot_set" where
  "date_slots e =
     (case date_range e of
        None \<Rightarrow> Map.empty
      | Some (d1, d2) \<Rightarrow> [date_from \<mapsto> Text d1, date_to \<mapsto> Text d2])"

definition industry_slots :: "extraction \<Rightarrow> slot_set" where
  "industry_slots e =
     (case industry_found e of
        None \<Rightarrow> Map.empty
      | Some (Code c) \<Rightarrow> [ssic_code \<mapsto> Text c]
      | Some (Category c) \<Rightarrow> [ssic_category \<mapsto> Text c])"

definition area_slots :: "extraction \<Rightarrow> slot_set" where
  "area_slots e =
     (case comparison_areas e of
        Some (a, b) \<Rightarrow> [compare_area_a \<mapsto> Place a, compare_area_b \<mapsto> Place b]
      | None \<Rightarrow>
          (case area_slot e of
             None \<Rightarrow> Map.empty
           | Some (PlanningArea i) \<Rightarrow> [planning_area \<mapsto> Place (PlanningArea i)]
           | Some (Subzone i) \<Rightarrow> [subzone \<mapsto> Place (Subzone i)]))"

definition extract_slots :: "extraction \<Rightarrow> slot_set" where
  "extract_slots e = date_slots e ++ industry_slots e ++ area_slots e"

text \<open>
  Modelled from the spec: the classifier's rules, an ordered list of guard and intent
  pairs (component design, Intent Classifier, rules 1 to 5).
\<close>

definition rules :: "((extraction \<Rightarrow> bool) \<times> intent) list" where
  "rules =
     [(\<lambda>e. comparison_areas e \<noteq> None, comparison),
      (\<lambda>e. hotspot_cue e \<or> (area_slot e \<noteq> None \<and> distribution_request e), hotspot),
      (\<lambda>e. ranking_cue e \<or> (count_request e \<and> industry_found e \<noteq> None), ranking),
      (\<lambda>e. trend_cue e \<or> (date_range e \<noteq> None \<and> \<not> ranking_cue e), trend),
      (\<lambda>e. lookup_cue e, entity_lookup)]"

text \<open>
  Modelled from the spec: the rules are tried from the top and the first whose guard holds
  wins; when none holds the intent is \<open>general\<close> (rule 6).
\<close>

fun first_match :: "((extraction \<Rightarrow> bool) \<times> intent) list \<Rightarrow> extraction \<Rightarrow> intent" where
  "first_match [] e = general"
| "first_match ((guard, i) # rs) e = (if guard e then i else first_match rs e)"

definition classify :: "extraction \<Rightarrow> intent \<times> slot_set" where
  "classify e = (first_match rules e, extract_slots e)"

text \<open>
  Modelled from the spec: a rendered query, the text and the bound parameters, and a
  result row, a mapping from column name to value kept in column order.
\<close>

record rendered_query =
  sql_text :: string
  bound_parameters :: "(string \<times> slot_value) list"

type_synonym row = "(string \<times> json) list"

text \<open>Modelled from the spec: the failures of an execution that reach the caller.\<close>

datatype failure = UpstreamExecutionError | UpstreamTimeout

text \<open>
  Modelled from the spec: what the orchestrator is given. \<open>render\<close> is the template
  renderer, \<open>fallback_text\<close> the fixed narrative for \<open>general\<close>, \<open>no_data_text\<close> the
  narrative for a result without rows and \<open>summary\<close> the phrase templates of the other
  narratives. Rendering always yields a query: where a required slot is missing it is the
  stand-in query.
\<close>

record core_config =
  render :: "intent \<Rightarrow> slot_set \<Rightarrow> rendered_query"
  fallback_text :: string
  no_data_text :: string
  summary :: "intent \<Rightarrow> slot_set \<Rightarrow> row list \<Rightarrow> string"

text \<open>Modelled from the spec: the responses of the two operations.\<close>

record explain_response =
  r_intent :: intent
  r_slots :: slot_set
  r_sql :: string

record answer_response = explain_response +
  r_data :: "row list"
  r_narrative :: string

text \<open>
  Modelled from the spec: the narrative generator. \<open>general\<close> gets the fixed string, a
  result without rows the no-data phrasing.
\<close>

definition narrate :: "core_config \<Rightarrow> intent \<Rightarrow> slot_set \<Rightarrow> row list \<Rightarrow> string" where
  "narrate cfg i slots rows =
     (if i = general then fallback_text cfg
      else if rows = [] then no_data_text cfg
      else summary cfg i slots rows)"

text \<open>
  Modelled from the spec: \<open>explain\<close>, extraction and classification and rendering
  without execution.
\<close>

definition explain :: "core_config \<Rightarrow> extraction \<Rightarrow> explain_response" where
  "explain cfg e =
     (let (i, slots) = classify e
      in \<lparr>r_intent = i, r_slots = slots, r_sql = sql_text (render cfg i slots)\<rparr>)"

text \<open>
  Modelled from the spec: \<open>answer\<close>, explain and execute and narrate. \<open>execute\<close> is the
  warehouse client; the first component of the result lists the queries handed to it. For
  \<open>general\<close> no query is executed. A failure carries the intent and the slots.
\<close>

definition answer ::
  "core_config \<Rightarrow> (rendered_query \<Rightarrow> failure + row list) \<Rightarrow> extraction
     \<Rightarrow> rendered_query list \<times> ((failure \<times> intent \<times> slot_set) + answer_response)" where
  "answer cfg execute e =
     (let (i, slots) = classify e;
          q = render cfg i slots
      in if i = general then
           ([], Inr \<lparr>r_intent = i, r_slots = slots, r_sql = sql_text q,
                     r_data = [], r_narrative = narrate cfg i slots []\<rparr>)
         else
           (case execute q of
              Inl f \<Rightarrow> ([q], Inl (f, i, slots))
            | Inr rows \<Rightarrow>
                ([q], Inr \<lparr>r_intent = i, r_slots = slots, r_sql = sql_text q,
                          r_data = rows, r_narrative = narrate cfg i slots rows\<rparr>)))"

section \<open>Example inputs\<close>

text \<open>
  A filter bar with two categories: "Food", whose keywords are "f&b", "Retail" and "47",
  listed before "Retail", which has no keywords. \<open>example_bar inp\<close> holds \<open>inp\<close> as
  the text typed so far and an SSIC code chosen earlier.
\<close>

definition example_food :: DisplayCategory where
  "example_food =
     \<lparr>id_cat = ''food'', label = ''Food'', keywords_cat = Some [''f&b'', ''Retail'', ''47''],
      sector = Some ''services'', display = ''Food''\<rparr>"

definition example_retail :: DisplayCategory where
  "example_retail =
     \<lparr>id_cat = ''retail'', label = ''Retail'', keywords_cat = None,
      sector = None, display = ''Retail''\<rparr>"

definition example_bar :: "string \<Rightarrow> FilterBarComponent" where
  "example_bar inp =
     \<lparr>state = \<lparr>from_date = None, to_date = None, ssic = Some ''56'',
                ssicCategory = None, area = None\<rparr>,
      stateChange = [],
      categories =
        [\<lparr>id_cat = ''food'', label = ''Food'', keywords_cat = Some [''f&b'', ''Retail'', ''47''],
          sector = Some ''services''\<rparr>,
         \<lparr>id_cat = ''retail'', label = ''Retail'', keywords_cat = None, sector = None\<rparr>],
      filteredCategories = [example_food, example_retail],
      categoryInput = inp,
      sectorLabel = [''services'' \<mapsto> ''Services''],
      groupedCategories = [],
      showCategoryList = False\<rparr>"

text \<open>
  Three extractions: a comparison of two planning areas that also carries a hotspot cue,
  a question with three area mentions around a comparison cue, and a question in which
  nothing is recognized.
\<close>

definition example_comparison :: extraction where
  "example_comparison =
     \<lparr>date_range = None, industry_found = Some (Category ''food''),
      area_mentions = [PlanningArea ''JW'', PlanningArea ''WD''],
      comparison_cue = True, hotspot_cue = True, distribution_request = False,
      ranking_cue = False, count_request = False, trend_cue = False, lookup_cue = False\<rparr>"

definition example_three_areas :: extraction where
  "example_three_areas =
     \<lparr>date_range = None, industry_found = None,
      area_mentions = [PlanningArea ''JW'', PlanningArea ''WD'', Subzone ''TMSZ01''],
      comparison_cue = True, hotspot_cue = False, distribution_request = False,
      ranking_cue = False, count_request = False, trend_cue = False, lookup_cue = False\<rparr>"

definition example_nothing :: extraction where
  "example_nothing =
     \<lparr>date_range = None, industry_found = None, area_mentions = [],
      comparison_cue = False, hotspot_cue = False, distribution_request = False,
      ranking_cue = False, count_request = False, trend_cue = False, lookup_cue = False\<rparr>"

text \<open>A configuration of the core, and a warehouse client that always times out.\<close>

definition example_config :: core_config where
  "example_config =
     \<lparr>render = (\<lambda>i slots. \<lparr>sql_text = ''SELECT 1 WHERE 0'', bound_parameters = []\<rparr>),
      fallback_text = ''Sorry, this question is not supported.'',
      no_data_text = ''No data found for this filter.'',
      summary = (\<lambda>i slots rows. ''Summary'')\<rparr>"

definition example_timeout :: "rendered_query \<Rightarrow> failure + row list" where
  "example_timeout q = Inl UpstreamTimeout"

text \<open>
  Two hotspots, one without a name and with no new entity, a parser that accepts every
  text but the empty one, and a page whose map exists.
\<close>

definition example_hotspots :: "MapHotspot list" where
  "example_hotspots =
     [\<lparr>subzone_id = Some ''TMSZ01'', name = Some ''Tampines East'',
       planning_area_id = Some ''TM'', count = 3, geometry = ''{}''\<rparr>,
      \<lparr>subzone_id = None, name = None, planning_area_id = None, count = 0, geometry = ''{}''\<rparr>]"

definition example_parse :: "string \<Rightarrow> string option" where
  "example_parse text = (if text = [] then None else Some text)"

definition example_page :: "string MapPage" where
  "example_page = \<lparr>map_created = True, geoLayer = None, loading = True\<rparr>"

section \<open>Properties of the filter bar\<close>

subsection \<open>Digits, trimming and lower-casing\<close>

lemma isDigit_not_space: "isDigit c \<Longrightarrow> \<not> isWhiteSpace c"
  by (auto simp: isDigit_def isWhiteSpace_def)

lemma isDigit_lowerChar: "isDigit c \<Longrightarrow> lowerChar c = c"
  unfolding isDigit_def by (elim disjE | simp add: lowerChar_def)+

lemma dropWhile_unchanged: "xs \<noteq> [] \<Longrightarrow> \<not> P (hd xs) \<Longrightarrow> dropWhile P xs = xs"
  by (cases xs) auto

lemma trim_digitsOnly:
  assumes "digitsOnly v"
  shows "trim v = v"
proof -
  from assms have ne: "v \<noteq> []" and all: "list_all isDigit v"
    by (simp_all add: digitsOnly_def)
  from ne all have "isDigit (hd v)" and "isDigit (last v)"
    by (simp_all add: list_all_iff)
  with ne have at_start: "\<not> isWhiteSpace (hd v)" and at_end: "\<not> isWhiteSpace (hd (rev v))"
    by (simp_all add: isDigit_not_space hd_rev)
  from ne at_start have "dropWhile isWhiteSpace v = v"
    by (rule dropWhile_unchanged)
  moreover from ne at_end have "dropWhile isWhiteSpace (rev v) = rev v"
    by (simp add: dropWhile_unchanged)
  ultimately show ?thesis
    by (simp add: trim_def)
qed

lemma toLowerCase_digitsOnly: "digitsOnly v \<Longrightarrow> toLowerCase v = v"
  by (simp add: digitsOnly_def toLowerCase_def list_all_iff isDigit_lowerChar map_idI)

subsection \<open>What the handlers leave alone\<close>

lemma state_onChange: "state (onChange c) = state c"
  by (simp add: onChange_def)

lemma state_updateGroupedCategories: "state (updateGroupedCategories v c) = state c"
  by (simp add: updateGroupedCategories_def Let_def)

lemma filteredCategories_updateGroupedCategories:
  "filteredCategories (updateGroupedCategories v c) = filteredCategories c"
  by (simp add: updateGroupedCategories_def Let_def)

lemmas onCategoryInput_unfold =
  onCategoryInput_def Let_def state_onChange state_updateGroupedCategories
  filteredCategories_updateGroupedCategories

subsection \<open>The two searches\<close>

lemma find_Some_holds: "find P xs = Some x \<Longrightarrow> P x \<and> x \<in> set xs"
  by (induction xs) (auto split: if_splits)

lemma find_finds: "\<exists>x\<in>set xs. P x \<Longrightarrow> \<exists>m. find P xs = Some m"
  by (cases "find P xs") (auto simp: find_None_iff)

lemma findMatch_None:
  "findMatch l cs = None \<longleftrightarrow> (\<forall>x\<in>set cs. \<not> labelMatch l x \<and> \<not> keywordMatch l x)"
  by (auto simp: findMatch_def findDirect_def findKeyword_def find_None_iff
           dest: find_Some_holds split: option.splits)

lemma findMatch_direct: "find (labelMatch l) cs = Some m \<Longrightarrow> findMatch l cs = Some m"
  by (simp add: findMatch_def findDirect_def)

lemma findMatch_keyword:
  "find (labelMatch l) cs = None \<Longrightarrow> find (keywordMatch l) cs = Some m \<Longrightarrow> findMatch l cs = Some m"
  by (simp add: findMatch_def findDirect_def findKeyword_def)

lemma onCategoryInput_match:
  assumes "trim (categoryInput c) \<noteq> []"
    and "findMatch (toLowerCase (trim (categoryInput c))) (filteredCategories c) = Some m"
  shows "ssicCategory (state (onCategoryInput c)) = Some (id_cat m)"
    and "ssic (state (onCategoryInput c)) = None"
  using assms by (simp_all add: onCategoryInput_unfold)

lemma onCategoryInput_no_match:
  assumes "findMatch (toLowerCase (trim (categoryInput c))) (filteredCategories c) = None"
  shows "ssicCategory (state (onCategoryInput c)) = None"
    and "ssic (state (onCategoryInput c)) =
           (if digitsOnly (trim (categoryInput c)) then Some (trim (categoryInput c)) else None)"
  using assms by (simp_all add: onCategoryInput_unfold digitsOnly_def)

subsection \<open>Digit strings\<close>

text \<open>
  Claim C5, as the code has it. An input whose token (the input without the white space
  around it) consists only of digits and equals no label and no keyword of the listed
  categories (compared in lower case) sets \<open>state.ssic\<close> to the digit string and
  leaves \<open>state.ssicCategory\<close> unset.
\<close>

theorem digits_without_match_set_ssic:
  assumes "digitsOnly (trim (categoryInput c))"
    and "\<forall>x\<in>set (filteredCategories c).
           \<not> labelMatch (trim (categoryInput c)) x \<and> \<not> keywordMatch (trim (categoryInput c)) x"
  shows "ssic (state (onCategoryInput c)) = Some (trim (categoryInput c))
       \<and> ssicCategory (state (onCategoryInput c)) = None"
proof -
  let ?v = "trim (categoryInput c)"
  from assms(1) have same: "toLowerCase ?v = ?v"
    by (rule toLowerCase_digitsOnly)
  from assms(2) have "findMatch ?v (filteredCategories c) = None"
    by (simp add: findMatch_None)
  with same have none: "findMatch (toLowerCase ?v) (filteredCategories c) = None"
    by simp
  from assms(1) show ?thesis
    by (simp add: onCategoryInput_no_match [OF none])
qed

theorem digits_without_match_set_ssic_witness:
  "trim (categoryInput (example_bar '' 48'')) = ''48''
   \<and> digitsOnly ''48''
   \<and> findMatch ''48'' (filteredCategories (example_bar '' 48'')) = None
   \<and> ssic (state (onCategoryInput (example_bar '' 48''))) = Some ''48''
   \<and> ssicCategory (state (onCategoryInput (example_bar '' 48''))) = None"
proof -
  have token: "trim (categoryInput (example_bar '' 48'')) = ''48''"
    by code_simp
  have digits: "digitsOnly ''48''"
    by code_simp
  have none: "findMatch ''48'' (filteredCategories (example_bar '' 48'')) = None"
    by code_simp
  from none
  have unmatched: "\<forall>x\<in>set (filteredCategories (example_bar '' 48'')).
          \<not> labelMatch ''48'' x \<and> \<not> keywordMatch ''48'' x"
    by (simp add: findMatch_None)
  from digits_without_match_set_ssic [of "example_bar '' 48''"] token digits none unmatched
  show ?thesis by simp
qed

text \<open>
  Claim C5 as it is stated fails. "47" consists only of digits and is a keyword of the
  category "Food": the input selects that category and leaves \<open>state.ssic\<close> unset.
\<close>

theorem digits_keyword_counterexample:
  "digitsOnly (categoryInput (example_bar ''47''))
   \<and> ssic (state (onCategoryInput (example_bar ''47''))) = None
   \<and> ssicCategory (state (onCategoryInput (example_bar ''47''))) = Some ''food''"
  by code_simp

subsection \<open>Precedence of the matches\<close>

text \<open>
  Claim C6. For an input that is not blank: if some listed category has the input as its
  label (compared in lower case), the first such category is selected, whatever the
  keywords of the others are; if none has, but some category has the input among its
  keywords, the first such category is selected; and if neither is the case no category
  is selected, so the substring match of the dropdown never selects one.
\<close>

theorem label_before_keyword_before_partial:
  assumes "trim (categoryInput c) \<noteq> []"
  shows "((\<exists>x\<in>set (filteredCategories c). labelMatch (toLowerCase (trim (categoryInput c))) x) \<longrightarrow>
           (\<exists>m. find (labelMatch (toLowerCase (trim (categoryInput c)))) (filteredCategories c) = Some m
              \<and> ssicCategory (state (onCategoryInput c)) = Some (id_cat m)
              \<and> ssic (state (onCategoryInput c)) = None))
       \<and> ((\<forall>x\<in>set (filteredCategories c). \<not> labelMatch (toLowerCase (trim (categoryInput c))) x)
           \<and> (\<exists>x\<in>set (filteredCategories c). keywordMatch (toLowerCase (trim (categoryInput c))) x) \<longrightarrow>
           (\<exists>m. find (keywordMatch (toLowerCase (trim (categoryInput c)))) (filteredCategories c) = Some m
              \<and> ssicCategory (state (onCategoryInput c)) = Some (id_cat m)
              \<and> ssic (state (onCategoryInput c)) = None))
       \<and> ((\<forall>x\<in>set (filteredCategories c). \<not> labelMatch (toLowerCase (trim (categoryInput c))) x
              \<and> \<not> keywordMatch (toLowerCase (trim (categoryInput c))) x) \<longrightarrow>
           ssicCategory (state (onCategoryInput c)) = None)"
    (is "(?L \<longrightarrow> ?A) \<and> (?NL \<and> ?K \<longrightarrow> ?B) \<and> (?N \<longrightarrow> ?C)")
proof (intro conjI impI)
  let ?l = "toLowerCase (trim (categoryInput c))"
  let ?cs = "filteredCategories c"
  show ?A if ?L
  proof -
    from find_finds [OF that] obtain m where m: "find (labelMatch ?l) ?cs = Some m" ..
    from onCategoryInput_match [OF assms findMatch_direct [OF m]] m
    show ?thesis by simp
  qed
  show ?B if "?NL \<and> ?K"
  proof -
    from that have d: "find (labelMatch ?l) ?cs = None"
      by (simp add: find_None_iff)
    from that have ?K ..
    from find_finds [OF this] obtain m where m: "find (keywordMatch ?l) ?cs = Some m" ..
    from onCategoryInput_match [OF assms findMatch_keyword [OF d m]] m
    show ?thesis by simp
  qed
  show ?C if ?N
  proof -
    from that have "findMatch ?l ?cs = None"
      by (simp add: findMatch_None)
    then show ?thesis
      by (rule onCategoryInput_no_match)
  qed
qed

theorem label_before_keyword_before_partial_witness:
  "trim (categoryInput (example_bar '' reTail '')) \<noteq> []
   \<and> labelMatch (toLowerCase (trim (categoryInput (example_bar '' reTail '')))) example_retail
   \<and> keywordMatch (toLowerCase (trim (categoryInput (example_bar '' reTail '')))) example_food
   \<and> ssicCategory (state (onCategoryInput (example_bar '' reTail ''))) = Some ''retail''
   \<and> keywordMatch (toLowerCase (trim (categoryInput (example_bar ''F&B'')))) example_food
   \<and> ssicCategory (state (onCategoryInput (example_bar ''F&B''))) = Some ''food''
   \<and> matchesFilter (toLowerCase (trim (categoryInput (example_bar ''tai'')))) example_retail
   \<and> ssicCategory (state (onCategoryInput (example_bar ''tai''))) = None"
proof -
  let ?c1 = "example_bar '' reTail ''"
  let ?c2 = "example_bar ''F&B''"
  let ?c3 = "example_bar ''tai''"
  let ?low = "\<lambda>c. toLowerCase (trim (categoryInput c))"
  have nb1: "trim (categoryInput ?c1) \<noteq> []" by code_simp
  have nb2: "trim (categoryInput ?c2) \<noteq> []" by code_simp
  have nb3: "trim (categoryInput ?c3) \<noteq> []" by code_simp
  have l1: "labelMatch (?low ?c1) example_retail" by code_simp
  have k1: "keywordMatch (?low ?c1) example_food" by code_simp
  have k2: "keywordMatch (?low ?c2) example_food" by code_simp
  have p3: "matchesFilter (?low ?c3) example_retail" by code_simp
  have L1: "\<exists>x\<in>set (filteredCategories ?c1). labelMatch (?low ?c1) x"
    by code_simp
  have first1: "map_option id_cat (find (labelMatch (?low ?c1)) (filteredCategories ?c1)) = Some ''retail''"
    by code_simp
  from label_before_keyword_before_partial [OF nb1, THEN conjunct1, THEN mp, OF L1] first1
  have r1: "ssicCategory (state (onCategoryInput ?c1)) = Some ''retail''"
    by (elim exE conjE) simp
  have K2: "(\<forall>x\<in>set (filteredCategories ?c2). \<not> labelMatch (?low ?c2) x)
          \<and> (\<exists>x\<in>set (filteredCategories ?c2). keywordMatch (?low ?c2) x)"
    by code_simp
  have first2: "map_option id_cat (find (keywordMatch (?low ?c2)) (filteredCategories ?c2)) = Some ''food''"
    by code_simp
  from label_before_keyword_before_partial [OF nb2, THEN conjunct2, THEN conjunct1, THEN mp, OF K2] first2
  have r2: "ssicCategory (state (onCategoryInput ?c2)) = Some ''food''"
    by (elim exE conjE) simp
  have N3: "\<forall>x\<in>set (filteredCategories ?c3). \<not> labelMatch (?low ?c3) x \<and> \<not> keywordMatch (?low ?c3) x"
    by code_simp
  from label_before_keyword_before_partial [OF nb3, THEN conjunct2, THEN conjunct2, THEN mp, OF N3]
  have r3: "ssicCategory (state (onCategoryInput ?c3)) = None" .
  from nb1 l1 k1 r1 k2 r2 p3 r3 show ?thesis by simp
qed

subsection \<open>The two industry slots exclude each other\<close>

text \<open>
  Claim C9. \<open>selectCategory\<close> sets \<open>state.ssicCategory\<close> and clears \<open>state.ssic\<close>;
  after \<open>onCategoryInput\<close> at least one of the two is unset; and an input that equals
  no label and no keyword and is no digit string leaves both unset.
\<close>

theorem industry_slots_exclusive:
  "(ssicCategory (state (selectCategory category c)) = Some (id_cat category)
      \<and> ssic (state (selectCategory category c)) = None)
   \<and> (ssic (state (onCategoryInput c)) = None \<or> ssicCategory (state (onCategoryInput c)) = None)
   \<and> ((\<forall>x\<in>set (filteredCategories c).
           \<not> labelMatch (toLowerCase (trim (categoryInput c))) x
         \<and> \<not> keywordMatch (toLowerCase (trim (categoryInput c))) x)
        \<and> \<not> digitsOnly (trim (categoryInput c)) \<longrightarrow>
       ssic (state (onCategoryInput c)) = None \<and> ssicCategory (state (onCategoryInput c)) = None)"
    (is "?S \<and> ?X \<and> (?N \<and> ?D \<longrightarrow> ?B)")
proof (intro conjI impI)
  show "ssicCategory (state (selectCategory category c)) = Some (id_cat category)"
    and "ssic (state (selectCategory category c)) = None"
    by (simp_all add: selectCategory_def state_onChange)
  show ?X
    by (simp add: onCategoryInput_unfold split: option.splits)
  assume "?N \<and> ?D"
  then have none: "findMatch (toLowerCase (trim (categoryInput c))) (filteredCategories c) = None"
    and no_digits: ?D
    by (simp_all add: findMatch_None)
  from no_digits show "ssic (state (onCategoryInput c)) = None"
    by (simp add: onCategoryInput_no_match [OF none])
  show "ssicCategory (state (onCategoryInput c)) = None"
    by (rule onCategoryInput_no_match [OF none])
qed

theorem industry_slots_exclusive_witness:
  "ssic (state (example_bar ''tai'')) = Some ''56''
   \<and> findMatch (toLowerCase (trim (categoryInput (example_bar ''tai''))))
        (filteredCategories (example_bar ''tai'')) = None
   \<and> \<not> digitsOnly (trim (categoryInput (example_bar ''tai'')))
   \<and> ssic (state (onCategoryInput (example_bar ''tai''))) = None
   \<and> ssicCategory (state (onCategoryInput (example_bar ''tai''))) = None
   \<and> ssicCategory (state (selectCategory example_food (example_bar ''tai''))) = Some ''food''
   \<and> ssic (state (selectCategory example_food (example_bar ''tai''))) = None"
proof -
  let ?c = "example_bar ''tai''"
  have before: "ssic (state ?c) = Some ''56''"
    by (simp add: example_bar_def)
  have none: "findMatch (toLowerCase (trim (categoryInput ?c))) (filteredCategories ?c) = None"
    by code_simp
  have no_digits: "\<not> digitsOnly (trim (categoryInput ?c))"
    by code_simp
  from none no_digits
  have hyp: "(\<forall>x\<in>set (filteredCategories ?c).
                 \<not> labelMatch (toLowerCase (trim (categoryInput ?c))) x
               \<and> \<not> keywordMatch (toLowerCase (trim (categoryInput ?c))) x)
             \<and> \<not> digitsOnly (trim (categoryInput ?c))"
    by (simp add: findMatch_None)
  note all = industry_slots_exclusive [of example_food ?c]
  from all [THEN conjunct2, THEN conjunct2, THEN mp, OF hyp]
  have cleared: "ssic (state (onCategoryInput ?c)) = None \<and> ssicCategory (state (onCategoryInput ?c)) = None" .
  have food: "id_cat example_food = ''food''"
    by (simp add: example_food_def)
  from all [THEN conjunct1] food
  have chosen: "ssicCategory (state (selectCategory example_food ?c)) = Some ''food''
              \<and> ssic (state (selectCategory example_food ?c)) = None"
    by simp
  from before none no_digits cleared chosen show ?thesis by simp
qed

section \<open>Properties of the API service\<close>

text \<open>
  Claim C8. \<open>chatSql\<close> and \<open>chatQuery\<close> send a POST request whose body is the object
  with the single field \<open>question\<close>, to \<open>/api/chat/sql-only\<close> and to
  \<open>/api/chat/query\<close> under the base URL. The response of the first is read as
  \<open>intent: string\<close>, \<open>slots: Record<string, unknown>\<close>, \<open>sql: string\<close>, that of the
  second as these three fields followed by \<open>data: Record<string, unknown>[]\<close> and
  \<open>narrative: string\<close>.
\<close>

theorem chat_operations_contract:
  "request (chatSql question) =
     \<lparr>verb = POST, url = baseUrl @ ''/api/chat/sql-only'',
      body = JObject [(''question'', JString question)]\<rparr>
   \<and> request (chatQuery question) =
     \<lparr>verb = POST, url = baseUrl @ ''/api/chat/query'',
      body = JObject [(''question'', JString question)]\<rparr>
   \<and> members (response (chatSql question)) =
     [(''intent'', TString), (''slots'', TRecord TUnknown), (''sql'', TString)]
   \<and> members (response (chatQuery question)) =
     members (response (chatSql question))
       @ [(''data'', TArray (TRecord TUnknown)), (''narrative'', TString)]"
  by (simp add: chatSql_def chatQuery_def members_def)

section \<open>Properties of the map page\<close>

lemma foldr_max_Max: "foldr max xs (d::real) = Max (insert d (set xs))"
proof (induction xs)
  case Nil
  show ?case by simp
next
  case (Cons x xs)
  have "Max (insert d (set (x # xs))) = Max (insert x (insert d (set xs)))"
    by (simp add: insert_commute)
  also have "\<dots> = max x (Max (insert d (set xs)))"
    by (rule Max_insert) simp_all
  finally show ?case
    using Cons.IH by simp
qed

lemma maxCount_Max: "maxCount hotspots = Max (insert 1 (count ` set hotspots))"
  by (simp add: maxCount_def foldr_max_Max)

lemma maxCount_ge_1: "1 \<le> maxCount hotspots"
  by (simp add: maxCount_Max)

lemma maxCount_ge_count: "h \<in> set hotspots \<Longrightarrow> count h \<le> maxCount hotspots"
  by (simp add: maxCount_Max)

lemma toFeatures_all_parse:
  "list_all (\<lambda>h. parse (geometry h) \<noteq> None) hs \<Longrightarrow>
     \<exists>fs. toFeatures parse hs = Inr fs \<and> map count_p fs = map count hs"
proof (induction hs)
  case Nil
  show ?case by simp
next
  case (Cons h hs)
  from Cons.prems obtain g where "parse (geometry h) = Some g"
    by auto
  then have one: "\<exists>f. toFeature parse h = Inr f \<and> count_p f = count h"
    by (simp add: toFeature_def)
  from Cons obtain fs where "toFeatures parse hs = Inr fs" and "map count_p fs = map count hs"
    by auto
  with one show ?case
    by auto
qed

lemma renderGeo_without_map: "\<not> map_created page \<Longrightarrow> renderGeo parse hotspots page = Inr page"
  by (simp add: renderGeo_def)

text \<open>
  Claim C10. For every list of hotspots the maximum that \<open>renderGeo\<close> computes is the
  largest of the counts and 1; it is 1 for the empty list and at least 1 always. When the
  map exists and every geometry parses, \<open>renderGeo\<close> builds a layer with one feature
  for each hotspot, in order and with its count, and the division of the style of each
  feature has that count as dividend and the maximum, which is at least 1 and so not
  zero, as divisor.
\<close>

theorem renderGeo_divisor_at_least_one:
  "maxCount hotspots = Max (insert 1 (count ` set hotspots))
   \<and> maxCount [] = 1
   \<and> 1 \<le> maxCount hotspots
   \<and> (map_created page \<and> list_all (\<lambda>h. parse (geometry h) \<noteq> None) hotspots \<longrightarrow>
        (\<exists>layer. renderGeo parse hotspots page = Inr (page\<lparr>geoLayer := Some layer\<rparr>)
           \<and> map (count_p \<circ> fst) layer = map count hotspots
           \<and> list_all (\<lambda>(f, d). dividend d = count_p f \<and> divisor d = maxCount hotspots
                                  \<and> 1 \<le> divisor d \<and> divisor d \<noteq> 0) layer))"
proof (intro conjI impI)
  show "maxCount hotspots = Max (insert 1 (count ` set hotspots))"
    by (rule maxCount_Max)
  show "maxCount [] = 1"
    by (simp add: maxCount_def)
  show ge: "1 \<le> maxCount hotspots"
    by (rule maxCount_ge_1)
  assume a: "map_created page \<and> list_all (\<lambda>h. parse (geometry h) \<noteq> None) hotspots"
  then obtain fs where fs: "toFeatures parse hotspots = Inr fs"
    and counts: "map count_p fs = map count hotspots"
    using toFeatures_all_parse [of parse hotspots] by auto
  let ?layer = "map (\<lambda>f. (f, style (maxCount hotspots) f)) fs"
  from a fs have "renderGeo parse hotspots page = Inr (page\<lparr>geoLayer := Some ?layer\<rparr>)"
    by (simp add: renderGeo_def)
  moreover from counts have "map (count_p \<circ> fst) ?layer = map count hotspots"
    by (simp add: comp_def)
  moreover from ge have "list_all (\<lambda>(f, d). dividend d = count_p f \<and> divisor d = maxCount hotspots
                                  \<and> 1 \<le> divisor d \<and> divisor d \<noteq> 0) ?layer"
    by (simp add: list_all_iff style_def)
  ultimately show "\<exists>layer. renderGeo parse hotspots page = Inr (page\<lparr>geoLayer := Some layer\<rparr>)
           \<and> map (count_p \<circ> fst) layer = map count hotspots
           \<and> list_all (\<lambda>(f, d). dividend d = count_p f \<and> divisor d = maxCount hotspots
                                  \<and> 1 \<le> divisor d \<and> divisor d \<noteq> 0) layer"
    by (intro exI [of _ ?layer] conjI)
qed

theorem renderGeo_divisor_at_least_one_witness:
  "map_created example_page
   \<and> list_all (\<lambda>h. example_parse (geometry h) \<noteq> None) example_hotspots
   \<and> map count example_hotspots = [3, 0]
   \<and> maxCount example_hotspots = 3
   \<and> (\<exists>layer. renderGeo example_parse example_hotspots example_page
                  = Inr (example_page\<lparr>geoLayer := Some layer\<rparr>)
         \<and> map (count_p \<circ> fst) layer = [3, 0]
         \<and> list_all (\<lambda>(f, d). dividend d = count_p f \<and> divisor d = 3) layer)
   \<and> maxCount [] = 1
   \<and> renderGeo example_parse [] example_page = Inr (example_page\<lparr>geoLayer := Some []\<rparr>)"
proof -
  have created: "map_created example_page"
    by (simp add: example_page_def)
  have parses: "list_all (\<lambda>h. example_parse (geometry h) \<noteq> None) example_hotspots"
    by (simp add: example_hotspots_def example_parse_def)
  have counts: "map count example_hotspots = [3, 0]"
    by (simp add: example_hotspots_def)
  have largest: "maxCount example_hotspots = 3"
    by (simp add: maxCount_def example_hotspots_def)
  note two = renderGeo_divisor_at_least_one [of example_hotspots example_page example_parse]
  from two [THEN conjunct2, THEN conjunct2, THEN conjunct2, THEN mp, OF conjI [OF created parses]]
  have filled: "\<exists>layer. renderGeo example_parse example_hotspots example_page
                  = Inr (example_page\<lparr>geoLayer := Some layer\<rparr>)
         \<and> map (count_p \<circ> fst) layer = [3, 0]
         \<and> list_all (\<lambda>(f, d). dividend d = count_p f \<and> divisor d = 3) layer"
    by (auto simp: counts largest list_all_iff)
  note none = renderGeo_divisor_at_least_one [of "[]" example_page example_parse]
  from none have one: "maxCount [] = 1"
    by simp
  from none [THEN conjunct2, THEN conjunct2, THEN conjunct2, THEN mp] created
  have empty: "renderGeo example_parse [] example_page = Inr (example_page\<lparr>geoLayer := Some []\<rparr>)"
    by simp
  from created parses counts largest filled one empty show ?thesis
    by (intro conjI)
qed

section \<open>Properties of the question-to-query core\<close>

lemma first_match_rules:
  "first_match rules e =
     (if comparison_areas e \<noteq> None then comparison
      else if hotspot_cue e \<or> (area_slot e \<noteq> None \<and> distribution_request e) then hotspot
      else if ranking_cue e \<or> (count_request e \<and> industry_found e \<noteq> None) then ranking
      else if trend_cue e \<or> (date_range e \<noteq> None \<and> \<not> ranking_cue e) then trend
      else if lookup_cue e then entity_lookup
      else general)"
  by (simp only: rules_def first_match.simps)

lemma comparison_areas_Some:
  "comparison_areas e = Some (a, b) \<longleftrightarrow> area_mentions e = [a, b] \<and> comparison_cue e \<and> a \<noteq> b"
  by (auto simp: comparison_areas_def split: list.splits if_splits)

lemma comparison_areas_length:
  "length (area_mentions e) \<noteq> 2 \<Longrightarrow> comparison_areas e = None"
  by (auto simp: comparison_areas_def split: list.splits)

lemma date_slots_compare: "date_slots e compare_area_a = None" "date_slots e compare_area_b = None"
  by (simp_all add: date_slots_def split: option.splits prod.splits)

lemma industry_slots_compare:
  "industry_slots e compare_area_a = None" "industry_slots e compare_area_b = None"
  by (simp_all add: industry_slots_def split: option.splits industry.splits)

lemma area_slots_compare_Some:
  assumes "comparison_areas e = Some (a, b)"
  shows "area_slots e compare_area_a = Some (Place a)"
    and "area_slots e compare_area_b = Some (Place b)"
  using assms by (simp_all add: area_slots_def)

lemma area_slots_compare_None:
  assumes "comparison_areas e = None"
  shows "area_slots e compare_area_a = None"
    and "area_slots e compare_area_b = None"
  using assms by (simp_all add: area_slots_def split: option.splits place.splits)

lemma extract_slots_compare:
  "extract_slots e compare_area_a = area_slots e compare_area_a"
  "extract_slots e compare_area_b = area_slots e compare_area_b"
  by (simp_all add: extract_slots_def map_add_def date_slots_compare industry_slots_compare
        split: option.splits)

text \<open>
  Claim C3, on the core as the specification describes it. A question with exactly two
  area mentions, distinct and connected by a comparison cue, gets the intent
  \<open>comparison\<close>, whatever other cues it carries, with \<open>compare_area_a\<close> and
  \<open>compare_area_b\<close> set to the two areas, which differ. A question with fewer or more
  than two area mentions has neither slot set and another intent.
\<close>

theorem comparison_needs_two_distinct_areas:
  "(area_mentions e = [a, b] \<and> a \<noteq> b \<and> comparison_cue e \<longrightarrow>
      fst (classify e) = comparison
      \<and> snd (classify e) compare_area_a = Some (Place a)
      \<and> snd (classify e) compare_area_b = Some (Place b)
      \<and> snd (classify e) compare_area_a \<noteq> snd (classify e) compare_area_b)
   \<and> (length (area_mentions e) \<noteq> 2 \<longrightarrow>
      snd (classify e) compare_area_a = None
      \<and> snd (classify e) compare_area_b = None
      \<and> fst (classify e) \<noteq> comparison)"
proof (intro conjI impI)
  assume two: "area_mentions e = [a, b] \<and> a \<noteq> b \<and> comparison_cue e"
  then have found: "comparison_areas e = Some (a, b)"
    by (simp add: comparison_areas_Some)
  then show "fst (classify e) = comparison"
    by (simp add: classify_def first_match_rules)
  from found show sa: "snd (classify e) compare_area_a = Some (Place a)"
    by (simp add: classify_def extract_slots_compare area_slots_compare_Some)
  from found show sb: "snd (classify e) compare_area_b = Some (Place b)"
    by (simp add: classify_def extract_slots_compare area_slots_compare_Some)
  from two sa sb show "snd (classify e) compare_area_a \<noteq> snd (classify e) compare_area_b"
    by simp
next
  assume "length (area_mentions e) \<noteq> 2"
  then have none: "comparison_areas e = None"
    by (rule comparison_areas_length)
  then show "snd (classify e) compare_area_a = None"
    and "snd (classify e) compare_area_b = None"
    by (simp_all add: classify_def extract_slots_compare area_slots_compare_None)
  from none show "fst (classify e) \<noteq> comparison"
    by (simp add: classify_def first_match_rules)
qed

theorem comparison_needs_two_distinct_areas_witness:
  "area_mentions example_comparison = [PlanningArea ''JW'', PlanningArea ''WD'']
   \<and> comparison_cue example_comparison
   \<and> hotspot_cue example_comparison
   \<and> fst (classify example_comparison) = comparison
   \<and> snd (classify example_comparison) compare_area_a = Some (Place (PlanningArea ''JW''))
   \<and> snd (classify example_comparison) compare_area_b = Some (Place (PlanningArea ''WD''))
   \<and> length (area_mentions example_three_areas) = 3
   \<and> comparison_cue example_three_areas
   \<and> snd (classify example_three_areas) compare_area_a = None
   \<and> snd (classify example_three_areas) compare_area_b = None
   \<and> fst (classify example_three_areas) \<noteq> comparison"
proof -
  have two: "area_mentions example_comparison = [PlanningArea ''JW'', PlanningArea ''WD'']
      \<and> PlanningArea ''JW'' \<noteq> PlanningArea ''WD'' \<and> comparison_cue example_comparison"
    by (simp add: example_comparison_def)
  have other: "hotspot_cue example_comparison"
    by (simp add: example_comparison_def)
  have three: "length (area_mentions example_three_areas) = 3" "comparison_cue example_three_areas"
    by (simp_all add: example_three_areas_def)
  then have not_two: "length (area_mentions example_three_areas) \<noteq> 2"
    by simp
  note yes = comparison_needs_two_distinct_areas
    [of example_comparison "PlanningArea ''JW''" "PlanningArea ''WD''", THEN conjunct1, THEN mp, OF two]
  note no = comparison_needs_two_distinct_areas
    [of example_three_areas "PlanningArea ''JW''" "PlanningArea ''WD''",
      THEN conjunct2, THEN mp, OF not_two]
  from two other three yes no show ?thesis
    by simp
qed

lemma nothing_extracted:
  assumes "date_range e = None" and "industry_found e = None" and "area_mentions e = []"
  shows "extract_slots e = Map.empty"
  using assms
  by (simp add: extract_slots_def date_slots_def industry_slots_def area_slots_def
        area_slot_def comparison_areas_def)

text \<open>
  Claim C4, on the core as the specification describes it. When nothing is recognized in
  a question (no date range, no industry, no area mention and none of the cues) the
  classifier returns \<open>general\<close> with the empty slot set, and \<open>answer\<close> hands no query
  to the warehouse client and returns, whatever that client would do, a response with
  no data and the fixed fallback narrative.
\<close>

theorem nothing_recognized_general_fallback:
  assumes "date_range e = None" and "industry_found e = None" and "area_mentions e = []"
    and "\<not> comparison_cue e" and "\<not> hotspot_cue e" and "\<not> distribution_request e"
    and "\<not> ranking_cue e" and "\<not> count_request e" and "\<not> trend_cue e"
    and "\<not> lookup_cue e"
  shows "classify e = (general, Map.empty)
       \<and> answer cfg execute e =
           ([], Inr \<lparr>r_intent = general, r_slots = Map.empty,
                     r_sql = sql_text (render cfg general Map.empty),
                     r_data = [], r_narrative = fallback_text cfg\<rparr>)"
proof -
  from assms(3) have "comparison_areas e = None"
    by (simp add: comparison_areas_def)
  with assms have "first_match rules e = general"
    by (simp add: first_match_rules)
  moreover from assms(1-3) have "extract_slots e = Map.empty"
    by (rule nothing_extracted)
  ultimately have c: "classify e = (general, Map.empty)"
    by (simp add: classify_def)
  then show ?thesis
    by (simp add: answer_def narrate_def)
qed

theorem nothing_recognized_general_fallback_witness:
  "classify example_nothing = (general, Map.empty)
   \<and> example_timeout (render example_config general Map.empty) = Inl UpstreamTimeout
   \<and> answer example_config example_timeout example_nothing =
       ([], Inr \<lparr>r_intent = general, r_slots = Map.empty, r_sql = ''SELECT 1 WHERE 0'',
                 r_data = [], r_narrative = ''Sorry, this question is not supported.''\<rparr>)"
proof -
  have fails: "example_timeout (render example_config general Map.empty) = Inl UpstreamTimeout"
    by (simp add: example_timeout_def)
  have cfg: "sql_text (render example_config general Map.empty) = ''SELECT 1 WHERE 0''"
    "fallback_text example_config = ''Sorry, this question is not supported.''"
    by (simp_all add: example_config_def)
  have "classify example_nothing = (general, Map.empty)
       \<and> answer example_config example_timeout example_nothing =
           ([], Inr \<lparr>r_intent = general, r_slots = Map.empty,
                     r_sql = sql_text (render example_config general Map.empty),
                     r_data = [], r_narrative = fallback_text example_config\<rparr>)"
    by (rule nothing_recognized_general_fallback) (simp_all add: example_nothing_def)
  with fails cfg show ?thesis
    by simp
qed

end
